theory Spec2Isabelle
  imports Main "HOL-Library.Word"
begin

section \<open>Machine types\<close>

text \<open>
  The header is the one of the LP64 build (linux x86-64): \<^verbatim>\<open>uint\<close> is a 32-bit unsigned
  integer, \<^verbatim>\<open>size_t\<close> a 64-bit one. Arithmetic on them wraps around, and \<^verbatim>\<open>UINT_MAX\<close> is
  the largest \<^verbatim>\<open>uint\<close>. A pointer is an address; address 0 is the null pointer.
\<close>

type_synonym uint_t = "32 word"
type_synonym size_t = "64 word"
type_synonym byte = "8 word"
type_synonym ptr = nat

definition UINT_MAX :: uint_t where
  "UINT_MAX = 0xFFFFFFFF"

definition nullptr :: ptr where
  "nullptr = 0"

text \<open>
  \<^verbatim>\<open>assert(cond, msg)\<close> stops the VM in a debug build and is compiled away in a product
  build. The operations below take the build as their first argument (\<open>True\<close>: asserts
  are compiled in) and return \<open>Inl\<close> of the failed assertion where the VM would stop.
\<close>

datatype error = Loop_condition

text \<open>\<^verbatim>\<open>memset(s, c, n)\<close> on the bytes at offsets \<open>0 .. n - 1\<close> from \<open>s\<close>.\<close>

definition memset :: "(nat \<Rightarrow> byte) \<Rightarrow> byte \<Rightarrow> size_t \<Rightarrow> (nat \<Rightarrow> byte)" where
  "memset s c n = (\<lambda>i. if i < unat n then c else s i)"

section \<open>SegmentedArrayBuffer\<close>

text \<open>
  The members of the class. \<^verbatim>\<open>char* _buffer\<close> is modelled by two fields: the address it
  holds (\<open>b_buffer\<close>) and the bytes stored from that address on (\<open>b_data\<close>, indexed by
  the offset from \<open>b_buffer\<close>); the storage belongs to this buffer alone.
\<close>

record SegmentedArrayBuffer =
  b_elem_size :: uint_t
  b_num_elems :: uint_t
  b_next :: ptr
  b_buffer :: ptr
  b_data :: "nat \<Rightarrow> byte"
  b_next_allocate :: uint_t

definition num_elems :: "SegmentedArrayBuffer \<Rightarrow> uint_t" where
  "num_elems b = b_num_elems b"

definition next_of :: "SegmentedArrayBuffer \<Rightarrow> ptr" where
  "next_of b = b_next b"

definition elem_size :: "SegmentedArrayBuffer \<Rightarrow> uint_t" where
  "elem_size b = b_elem_size b"

definition length_buffer :: "SegmentedArrayBuffer \<Rightarrow> uint_t" where
  "length_buffer b = b_next_allocate b"

definition start :: "SegmentedArrayBuffer \<Rightarrow> ptr" where
  "start b = b_buffer b"


text \<open>
  \<^verbatim>\<open>set_next(next)\<close> and \<^verbatim>\<open>reset(next)\<close>, called on the buffer at address \<open>this\<close>.
\<close>

definition set_next ::
  "bool \<Rightarrow> ptr \<Rightarrow> ptr \<Rightarrow> SegmentedArrayBuffer \<Rightarrow> error + SegmentedArrayBuffer" where
  "set_next debug this nxt b =
     (if debug \<and> \<not> (nxt \<noteq> this) then Inl Loop_condition
      else Inr (b\<lparr>b_next := nxt\<rparr>))"

definition reset ::
  "bool \<Rightarrow> ptr \<Rightarrow> ptr \<Rightarrow> SegmentedArrayBuffer \<Rightarrow> error + SegmentedArrayBuffer" where
  "reset debug this nxt b =
     (let b1 = b\<lparr>b_next_allocate := 0\<rparr> in
      if debug \<and> \<not> (nxt \<noteq> this) then Inl Loop_condition
      else case set_next debug this nxt b1 of
        Inl e \<Rightarrow> Inl e
      | Inr b2 \<Rightarrow>
          Inr (b2\<lparr>b_data :=
                 memset (b_data b2) 0
                   ((ucast (b_num_elems b2) :: size_t) * ucast (b_elem_size b2))\<rparr>))"

text \<open>
  Modelled from the spec: \<^verbatim>\<open>get_new_buffer_elem\<close> is declared in the header and its body
  is in a file that is not part of the sources. The spec (4.1, \<^verbatim>\<open>allocate_slot()\<close>):
  "atomically increments \<^verbatim>\<open>next_allocate\<close> and returns the previous value; if that value is
  \<^verbatim>\<open>< capacity\<close>, returns a pointer into the buffer at \<^verbatim>\<open>prev * elem_size\<close>; otherwise
  returns "exhausted" (no pointer). Pure compare-free fetch-and-add". The header says the
  same of \<^verbatim>\<open>_next_allocate\<close>: it "can be larger [than \<^verbatim>\<open>_num_elems\<close>] because we atomically
  increment this value and check only afterwards if the allocation has been successful".
  The increment is the addition of the header's \<^verbatim>\<open>uint volatile _next_allocate\<close>; the spec
  has the counter only increase and says nothing of a counter that is \<^verbatim>\<open>UINT_MAX\<close>. The
  spec gives no width for \<^verbatim>\<open>prev * elem_size\<close>; it is the product of the two numbers. The
  theorems below use neither: they read only what a call leaves of the two \<^verbatim>\<open>const\<close>
  members. The result is the returned pointer (\<open>None\<close>: exhausted) and the buffer after
  the call.
\<close>

definition get_new_buffer_elem ::
  "SegmentedArrayBuffer \<Rightarrow> ptr option \<times> SegmentedArrayBuffer" where
  "get_new_buffer_elem b =
     (let result = b_next_allocate b;
          b' = b\<lparr>b_next_allocate := result + 1\<rparr>
      in (if result < b_num_elems b
          then Some (b_buffer b + unat result * unat (b_elem_size b))
          else None, b'))"

section \<open>SegmentedArrayBufferList\<close>

text \<open>
  Buffers are objects on the C heap, addressed by pointers; the free list links them
  through their \<^verbatim>\<open>_next\<close> member. The heap maps the address of a buffer to its members.
\<close>

type_synonym heap = "ptr \<Rightarrow> SegmentedArrayBuffer option"

record SegmentedArrayBufferList =
  l_list :: ptr
  l_num_buffers :: size_t
  l_mem_size :: size_t

text \<open>
  Modelled from the spec: \<^verbatim>\<open>add(elem)\<close> is \<^verbatim>\<open>_list.prepend(elem)\<close> in the header, and
  the lock-free stack it calls is not part of the sources. The spec (3 and 4.3): the pool is
  "a singly linked lock-free stack of Buffers", linked through the buffer's intrusive
  "next" slot, and \<^verbatim>\<open>push(buffer)\<close> is a "single-buffer push". The header's \<^verbatim>\<open>add\<close>
  touches neither counter. \<open>elem\<close> is a reference, so it denotes a buffer; where the
  heap holds none at that address nothing is done.
\<close>

definition add ::
  "ptr \<Rightarrow> SegmentedArrayBufferList \<Rightarrow> heap \<Rightarrow> SegmentedArrayBufferList \<times> heap" where
  "add elem l h =
     (case h elem of
        None \<Rightarrow> (l, h)
      | Some b \<Rightarrow> (l\<lparr>l_list := elem\<rparr>, h(elem \<mapsto> b\<lparr>b_next := l_list l\<rparr>)))"

text \<open>
  Modelled from the spec: \<^verbatim>\<open>get()\<close> is declared in the header and its body is in a file
  that is not part of the sources. The spec (4.3, \<^verbatim>\<open>pop()\<close>): "removes and returns one
  buffer, or "empty" if none; caller gets whichever buffer happens to be at the head".
  The spec names no write to the buffer that is returned.
\<close>

definition get ::
  "SegmentedArrayBufferList \<Rightarrow> heap \<Rightarrow> ptr option \<times> SegmentedArrayBufferList \<times> heap" where
  "get l h =
     (if l_list l = nullptr then (None, l, h)
      else case h (l_list l) of
        None \<Rightarrow> (None, l, h)
      | Some b \<Rightarrow> (Some (l_list l), l\<lparr>l_list := b_next b\<rparr>, h))"

text \<open>A push of the buffer at \<open>elem\<close> followed by a pop.\<close>

definition push_pop ::
  "ptr \<Rightarrow> SegmentedArrayBufferList \<Rightarrow> heap \<Rightarrow> ptr option \<times> SegmentedArrayBufferList \<times> heap" where
  "push_pop elem l h = (case add elem l h of (l1, h1) \<Rightarrow> get l1 h1)"

text \<open>The two members of a buffer that are declared \<^verbatim>\<open>const\<close>, as its accessors read them.\<close>

definition dimensions :: "SegmentedArrayBuffer \<Rightarrow> uint_t \<times> uint_t" where
  "dimensions b = (elem_size b, num_elems b)"

section \<open>G1SegmentedArrayAllocOptions\<close>

record G1SegmentedArrayAllocOptions =
  o_elem_size :: uint_t
  o_initial_num_elems :: uint_t
  o_max_num_elems :: uint_t
  o_alignment :: uint_t

definition BufferAlignment :: uint_t where
  "BufferAlignment = 4"

definition MinimumBufferSize :: uint_t where
  "MinimumBufferSize = 8"

definition MaximumBufferSize :: uint_t where
  "MaximumBufferSize = UINT_MAX div 2"

text \<open>
  The constructor. Its last three parameters have default arguments: \<open>None\<close> is an
  argument left out at the call, \<open>Some v\<close> an argument given.
\<close>

definition new_G1SegmentedArrayAllocOptions ::
  "uint_t \<Rightarrow> uint_t option \<Rightarrow> uint_t option \<Rightarrow> uint_t option \<Rightarrow> G1SegmentedArrayAllocOptions" where
  "new_G1SegmentedArrayAllocOptions elem_size_arg initial_num_elems max_num_elems alignment_arg =
     \<lparr>o_elem_size = elem_size_arg,
      o_initial_num_elems = (case initial_num_elems of None \<Rightarrow> MinimumBufferSize | Some v \<Rightarrow> v),
      o_max_num_elems = (case max_num_elems of None \<Rightarrow> MaximumBufferSize | Some v \<Rightarrow> v),
      o_alignment = (case alignment_arg of None \<Rightarrow> BufferAlignment | Some v \<Rightarrow> v)\<rparr>"

text \<open>
  Modelled from the spec: \<^verbatim>\<open>clamp\<close> is a helper of the VM's global definitions, which are
  not part of the sources. The spec (4.2) names it as \<^verbatim>\<open>clamp(prev*2, initial, max)\<close>: the
  value bounded below by the second argument and above by the third.
\<close>

definition clamp :: "uint_t \<Rightarrow> uint_t \<Rightarrow> uint_t \<Rightarrow> uint_t" where
  "clamp v lo hi = min (max v lo) hi"

definition exponential_expand :: "G1SegmentedArrayAllocOptions \<Rightarrow> uint_t \<Rightarrow> uint_t" where
  "exponential_expand opts prev_num_elems =
     clamp (prev_num_elems * 2) (o_initial_num_elems opts) (o_max_num_elems opts)"

definition next_num_elems :: "G1SegmentedArrayAllocOptions \<Rightarrow> uint_t \<Rightarrow> uint_t" where
  "next_num_elems opts prev_num_elems = o_initial_num_elems opts"

definition alignment :: "G1SegmentedArrayAllocOptions \<Rightarrow> uint_t" where
  "alignment opts = o_alignment opts"

section \<open>Concrete buffers, lists and policies\<close>

text \<open>
  A buffer of eight elements of 16 bytes with three elements handed out and storage
  that is not zero; an empty free list; a heap that holds the buffer at address 8192; the
  policy constructed from the element size 16 alone.
\<close>

definition used_buffer :: SegmentedArrayBuffer where
  "used_buffer =
     \<lparr>b_elem_size = 16, b_num_elems = 8, b_next = nullptr, b_buffer = 4096,
      b_data = (\<lambda>i. 255), b_next_allocate = 3\<rparr>"

definition empty_list :: SegmentedArrayBufferList where
  "empty_list = \<lparr>l_list = nullptr, l_num_buffers = 0, l_mem_size = 0\<rparr>"

definition one_buffer_heap :: heap where
  "one_buffer_heap = Map.empty(8192 \<mapsto> used_buffer)"

definition default_options :: G1SegmentedArrayAllocOptions where
  "default_options = new_G1SegmentedArrayAllocOptions 16 None None None"

section \<open>The sizing policy\<close>

lemma default_options_fields:
  "o_elem_size default_options = 16"
  "o_initial_num_elems default_options = 8"
  "o_max_num_elems default_options = 0x7FFFFFFF"
  "o_alignment default_options = 4"
  by (simp_all add: default_options_def new_G1SegmentedArrayAllocOptions_def
      MinimumBufferSize_def MaximumBufferSize_def BufferAlignment_def UINT_MAX_def)

text \<open>
  C1: for every sizing policy and every previous capacity, \<^verbatim>\<open>next_num_elems\<close> returns the
  stored \<^verbatim>\<open>_initial_num_elems\<close>, whatever the previous capacity is; the doubling helper
  takes no part in it.
\<close>

theorem next_num_elems_constant:
  "next_num_elems opts prev = o_initial_num_elems opts \<and>
   next_num_elems opts prev = next_num_elems opts prev'"
  by (simp add: next_num_elems_def)

text \<open>
  C8: a policy constructed from an element size alone has \<^verbatim>\<open>initial_num_elems = 8\<close>,
  \<^verbatim>\<open>max_num_elems = UINT_MAX / 2\<close> and \<^verbatim>\<open>alignment = 4\<close>.
\<close>

theorem constructor_defaults:
  "o_elem_size (new_G1SegmentedArrayAllocOptions es None None None) = es \<and>
   o_initial_num_elems (new_G1SegmentedArrayAllocOptions es None None None) = 8 \<and>
   o_max_num_elems (new_G1SegmentedArrayAllocOptions es None None None) = UINT_MAX div 2 \<and>
   o_max_num_elems (new_G1SegmentedArrayAllocOptions es None None None) = 0x7FFFFFFF \<and>
   alignment (new_G1SegmentedArrayAllocOptions es None None None) = 4"
  by (simp add: new_G1SegmentedArrayAllocOptions_def MinimumBufferSize_def
      MaximumBufferSize_def BufferAlignment_def UINT_MAX_def alignment_def)


text \<open>
  C5 (as stated, it does not hold): the constructor stores whatever it is given. Built
  with \<^verbatim>\<open>initial_num_elems = 1\<close> and \<^verbatim>\<open>max_num_elems = UINT_MAX\<close>, the policy has a stored
  \<^verbatim>\<open>initial_num_elems\<close> below 8 and a stored \<^verbatim>\<open>max_num_elems\<close> above \<^verbatim>\<open>UINT_MAX / 2\<close>.
\<close>

theorem constructor_out_of_bounds:
  "o_initial_num_elems (new_G1SegmentedArrayAllocOptions 16 (Some 1) (Some UINT_MAX) None) < 8 \<and>
   UINT_MAX div 2 < o_max_num_elems (new_G1SegmentedArrayAllocOptions 16 (Some 1) (Some UINT_MAX) None)"
  by (simp add: new_G1SegmentedArrayAllocOptions_def UINT_MAX_def)

text \<open>
  C5, amended: the constructor stores its arguments unchanged, and an argument left out
  is replaced by its default. So the stored \<^verbatim>\<open>initial_num_elems\<close> is at least 8 and the
  stored \<^verbatim>\<open>max_num_elems\<close> at most \<^verbatim>\<open>UINT_MAX / 2\<close> exactly when each of the two arguments
  is left out or is itself within that bound.
\<close>

theorem constructor_stores_arguments:
  "o_initial_num_elems (new_G1SegmentedArrayAllocOptions es (Some i) m a) = i \<and>
   o_max_num_elems (new_G1SegmentedArrayAllocOptions es i' (Some m') a) = m' \<and>
   ((8 \<le> o_initial_num_elems (new_G1SegmentedArrayAllocOptions es i' m a) \<and>
     o_max_num_elems (new_G1SegmentedArrayAllocOptions es i' m a) \<le> UINT_MAX div 2) =
    ((case i' of None \<Rightarrow> True | Some v \<Rightarrow> 8 \<le> v) \<and>
     (case m of None \<Rightarrow> True | Some v \<Rightarrow> v \<le> UINT_MAX div 2)))"
  by (simp add: new_G1SegmentedArrayAllocOptions_def MinimumBufferSize_def
      MaximumBufferSize_def UINT_MAX_def split: option.splits)

text \<open>
  C6: for a policy with \<^verbatim>\<open>initial_num_elems \<le> max_num_elems\<close> and every \<open>prev\<close>,
  \<^verbatim>\<open>exponential_expand(prev)\<close> is \<^verbatim>\<open>clamp(prev * 2, initial_num_elems, max_num_elems)\<close>: the
  product \<^verbatim>\<open>prev * 2\<close> (of 32-bit unsigned arithmetic) where it lies between the two bounds,
  \<^verbatim>\<open>initial_num_elems\<close> where it is below and \<^verbatim>\<open>max_num_elems\<close> where it is above; the result
  lies between the two bounds.
\<close>

theorem exponential_expand_clamps:
  assumes "o_initial_num_elems opts \<le> o_max_num_elems opts"
  shows "exponential_expand opts prev =
           clamp (prev * 2) (o_initial_num_elems opts) (o_max_num_elems opts) \<and>
         exponential_expand opts prev =
           (if prev * 2 < o_initial_num_elems opts then o_initial_num_elems opts
            else if o_max_num_elems opts < prev * 2 then o_max_num_elems opts
            else prev * 2) \<and>
         o_initial_num_elems opts \<le> exponential_expand opts prev \<and>
         exponential_expand opts prev \<le> o_max_num_elems opts"
  using assms
  by (auto simp: exponential_expand_def clamp_def min_def max_def)

theorem exponential_expand_clamps_witness:
  "o_initial_num_elems default_options \<le> o_max_num_elems default_options \<and>
   exponential_expand default_options 100 = 200 \<and>
   exponential_expand default_options 3 = 8 \<and>
   exponential_expand default_options 0x7FFFFFFF = 0x7FFFFFFF"
proof -
  have h: "o_initial_num_elems default_options \<le> o_max_num_elems default_options"
    by (simp add: default_options_fields clamp_def)
  note e = exponential_expand_clamps [OF h]
  have "exponential_expand default_options 100 = 200"
    using e [of 100] by (simp add: default_options_fields clamp_def)
  moreover have "exponential_expand default_options 3 = 8"
    using e [of 3] by (simp add: default_options_fields clamp_def)
  moreover have "exponential_expand default_options 0x7FFFFFFF = 0x7FFFFFFF"
    using e [of "0x7FFFFFFF"] by (simp add: default_options_fields clamp_def)
  ultimately show ?thesis using h by simp
qed




section \<open>The buffer's operations\<close>

lemma unat_storage_size:
  "unat ((ucast (n :: uint_t) :: size_t) * ucast (e :: uint_t)) = unat n * unat e"
proof -
  have "unat n < 2 ^ 32" "unat e < 2 ^ 32"
    using unsigned_less [of n] unsigned_less [of e] by simp_all
  then have "unat n * unat e < 2 ^ 32 * 2 ^ 32"
    by (rule mult_strict_mono') simp_all
  then have "unat n * unat e < 2 ^ 64" by simp
  moreover have "unat (ucast n :: size_t) = unat n" "unat (ucast e :: size_t) = unat e"
    by (simp_all add: unsigned_ucast_eq take_bit_nat_eq_self
        order_less_le_trans [OF unsigned_less])
  ultimately show ?thesis
    by (simp add: unat_word_ariths)
qed

text \<open>
  C3: for every buffer and every link value \<open>n\<close>, \<^verbatim>\<open>reset(n)\<close> completes (in a debug
  build: when \<open>n\<close> is not the buffer itself, so that its assertions hold), and after it
  \<^verbatim>\<open>next_allocate\<close> is 0, \<^verbatim>\<open>length()\<close> returns 0, each of the \<^verbatim>\<open>capacity * elem_size\<close> bytes
  of the backing storage is zero, and the next link is \<open>n\<close>.
\<close>

theorem reset_clears:
  assumes "debug \<longrightarrow> n \<noteq> this"
  shows "\<exists>b'. reset debug this n b = Inr b' \<and>
           b_next_allocate b' = 0 \<and> length_buffer b' = 0 \<and>
           (\<forall>i < unat (b_num_elems b) * unat (b_elem_size b). b_data b' i = 0) \<and>
           b_next b' = n \<and> next_of b' = n"
  using assms
  by (auto simp: reset_def set_next_def memset_def length_buffer_def next_of_def
      unat_storage_size Let_def)

theorem reset_clears_witness:
  "nullptr \<noteq> (8192 :: ptr) \<and>
   (\<exists>b'. reset True 8192 nullptr used_buffer = Inr b' \<and>
           b_next_allocate b' = 0 \<and> length_buffer b' = 0 \<and>
           (\<forall>i < 128. b_data b' i = 0) \<and>
           b_next b' = nullptr \<and> next_of b' = nullptr)"
  using reset_clears [of True nullptr 8192 used_buffer]
  by (simp add: used_buffer_def nullptr_def)

text \<open>
  C9: for every buffer at address \<open>this\<close> and every link value \<open>n\<close> other than
  \<open>this\<close>, \<^verbatim>\<open>set_next(n)\<close> and \<^verbatim>\<open>reset(n)\<close> pass their assertions, and after the call the
  buffer's next link is \<open>n\<close> and is not the buffer itself.
\<close>

theorem no_self_link:
  assumes "n \<noteq> this"
  shows "(\<exists>b'. set_next debug this n b = Inr b' \<and> next_of b' = n \<and> next_of b' \<noteq> this) \<and>
         (\<exists>b'. reset debug this n b = Inr b' \<and> next_of b' = n \<and> next_of b' \<noteq> this)"
  using assms
  by (simp add: reset_def set_next_def next_of_def Let_def)

theorem no_self_link_witness:
  "(4096 :: ptr) \<noteq> 8192 \<and>
   (\<exists>b'. set_next True 8192 4096 used_buffer = Inr b' \<and> next_of b' = 4096 \<and> next_of b' \<noteq> 8192) \<and>
   (\<exists>b'. reset True 8192 4096 used_buffer = Inr b' \<and> next_of b' = 4096 \<and> next_of b' \<noteq> 8192)"
  using no_self_link [of 4096 8192 True used_buffer]
  by simp




text \<open>
  C7: \<^verbatim>\<open>elem_size\<close> and the capacity of a buffer do not change: \<^verbatim>\<open>set_next\<close>, \<^verbatim>\<open>reset\<close> and
  the slot allocator leave them as they are, a push to and a pop from the free list leave
  them as they are for every buffer of the heap, and a buffer pushed to the free list and
  popped again is the same buffer with the same \<^verbatim>\<open>elem_size\<close> and capacity.
\<close>

theorem dimensions_immutable:
  "(set_next debug this n b = Inr b1 \<longrightarrow> elem_size b1 = elem_size b \<and> num_elems b1 = num_elems b) \<and>
   (reset debug this n b = Inr b2 \<longrightarrow> elem_size b2 = elem_size b \<and> num_elems b2 = num_elems b) \<and>
   elem_size (snd (get_new_buffer_elem b)) = elem_size b \<and>
   num_elems (snd (get_new_buffer_elem b)) = num_elems b \<and>
   (h p = Some b \<and> p \<noteq> nullptr \<longrightarrow>
      fst (push_pop p l h) = Some p \<and>
      map_option dimensions (snd (snd (push_pop p l h)) p) = Some (dimensions b)) \<and>
   map_option dimensions (snd (add p l h) q) = map_option dimensions (h q) \<and>
   map_option dimensions (snd (snd (get l h)) q) = map_option dimensions (h q) \<and>
   map_option dimensions (snd (snd (push_pop p l h)) q) = map_option dimensions (h q)"
  by (auto simp: set_next_def reset_def get_new_buffer_elem_def add_def get_def push_pop_def
      dimensions_def elem_size_def num_elems_def Let_def split: if_splits option.splits)

theorem dimensions_immutable_witness:
  "one_buffer_heap 8192 = Some used_buffer \<and> (8192 :: ptr) \<noteq> nullptr \<and>
   fst (push_pop 8192 empty_list one_buffer_heap) = Some 8192 \<and>
   map_option dimensions (snd (snd (push_pop 8192 empty_list one_buffer_heap)) 8192) = Some (16, 8) \<and>
   map_sum id dimensions (reset True 8192 nullptr used_buffer) = Inr (16, 8) \<and>
   map_sum id dimensions (set_next True 8192 nullptr used_buffer) = Inr (16, 8)"
proof -
  have h: "one_buffer_heap 8192 = Some used_buffer" "(8192 :: ptr) \<noteq> nullptr"
    by (simp_all add: one_buffer_heap_def nullptr_def)
  have d: "dimensions used_buffer = (16, 8)"
    by (simp add: dimensions_def used_buffer_def elem_size_def num_elems_def)
  obtain b1 where b1: "set_next True 8192 nullptr used_buffer = Inr b1"
    by (simp add: set_next_def nullptr_def)
  obtain b2 where b2: "reset True 8192 nullptr used_buffer = Inr b2"
    by (simp add: reset_def set_next_def nullptr_def)
  note t = dimensions_immutable [of True 8192 nullptr used_buffer b1 b2 one_buffer_heap 8192
      empty_list 8192]
  from t b1 b2 h d show ?thesis
    by (simp add: dimensions_def)
qed

end
